theory Spec2Isabelle
  imports Complex_Main "HOL-Library.AList"
begin

section \<open>Numbers, candles and indicators\<close>

text \<open>
  The Go program computes on \<^verbatim>\<open>float64\<close> and on techan's \<^verbatim>\<open>big.Decimal\<close>. Both are
  modelled by \<^typ>\<open>real\<close>: finite values under exact arithmetic. A float operation whose
  IEEE result is not finite (a division by zero) is written out as the error value
  \<open>NonFinite\<close> where the source performs it unguarded; \<^verbatim>\<open>math.IsNaN\<close> and
  \<^verbatim>\<open>math.IsInf\<close> are false on every value of the model.
  Go's \<^verbatim>\<open>int\<close> is \<^typ>\<open>int\<close>.
\<close>

datatype error = NonFinite | IndexOutOfRange | InsufficientData | NoHistoricalData

definition IsNaN :: "real \<Rightarrow> bool" where
  "IsNaN v = False"

definition IsInf :: "real \<Rightarrow> int \<Rightarrow> bool" where
  "IsInf v sign = False"

record Candle =
  PeriodStart :: int
  OpenPrice :: real
  MaxPrice :: real
  MinPrice :: real
  ClosePrice :: real
  Volume :: real

type_synonym TimeSeries = "Candle list"

text \<open>A techan \<^verbatim>\<open>Indicator\<close> is an object with one method \<^verbatim>\<open>Calculate(index)\<close>.\<close>

type_synonym Indicator = "int \<Rightarrow> real"

definition LastIndex :: "TimeSeries \<Rightarrow> int" where
  "LastIndex ts = int (length ts) - 1"

definition NewClosePriceIndicator :: "TimeSeries \<Rightarrow> Indicator" where
  "NewClosePriceIndicator ts = (\<lambda>i. ClosePrice (ts ! nat i))"

definition NewHighPriceIndicator :: "TimeSeries \<Rightarrow> Indicator" where
  "NewHighPriceIndicator ts = (\<lambda>i. MaxPrice (ts ! nat i))"

definition NewLowPriceIndicator :: "TimeSeries \<Rightarrow> Indicator" where
  "NewLowPriceIndicator ts = (\<lambda>i. MinPrice (ts ! nat i))"

definition NewVolumeIndicator :: "TimeSeries \<Rightarrow> Indicator" where
  "NewVolumeIndicator ts = (\<lambda>i. Volume (ts ! nat i))"

text \<open>
  The moving-average and RSI indicators are code of the techan library, which is not
  part of the repository. The program is modelled over any implementation of them: a
  \<open>techan\<close> value holds the two constructors the program calls, each taking the base
  indicator and the window.
\<close>

record techan =
  NewEMAIndicator :: "Indicator \<Rightarrow> int \<Rightarrow> Indicator"
  NewRelativeStrengthIndexIndicator :: "Indicator \<Rightarrow> int \<Rightarrow> Indicator"

text \<open>
  Modelled from the spec: techan's \<^verbatim>\<open>NewMACDIndicator\<close> and
  \<^verbatim>\<open>NewMACDHistogramIndicator\<close> (library code). Section 4.1:
  "MACD(fast, slow) = EMA(fast) - EMA(slow); signal = EMA(MACD, signalPeriod);
  histogram = MACD - signal."
\<close>

definition NewMACDIndicator :: "techan \<Rightarrow> Indicator \<Rightarrow> int \<Rightarrow> int \<Rightarrow> Indicator" where
  "NewMACDIndicator L base shortwindow longwindow =
     (\<lambda>i. NewEMAIndicator L base shortwindow i - NewEMAIndicator L base longwindow i)"

definition NewMACDHistogramIndicator :: "techan \<Rightarrow> Indicator \<Rightarrow> int \<Rightarrow> Indicator" where
  "NewMACDHistogramIndicator L macd signalLinewindow =
     (\<lambda>i. macd i - NewEMAIndicator L macd signalLinewindow i)"

subsection \<open>A reference implementation of the library interface\<close>

text \<open>
  Modelled from the spec: the techan indicators SMA, EMA and RSI (library code).
  Section 4.1: SMA is the "simple windowed mean over the trailing period bars ending at
  index; undefined (return a zero/sentinel) if fewer than period bars exist"; EMA is
  "exponential smoothing", recomputed "from a fixed known-good starting point each
  time" (here the SMA of the first full window, smoothing factor 2/(period+1)); RSI is
  the "average gain/loss over trailing period bars, scaled 0-100", where "no losses"
  maps to 100. The general theorems below hold for every \<open>techan\<close> value; this
  instance serves to evaluate the program on concrete series.
\<close>

function sumFrom :: "Indicator \<Rightarrow> int \<Rightarrow> int \<Rightarrow> real" where
  "sumFrom ind i hi = (if hi < i then 0 else ind i + sumFrom ind (i + 1) hi)"
  by pat_completeness auto
termination
  by (relation "measure (\<lambda>(ind, i, hi). nat (hi + 1 - i))") auto

definition specSMA :: "Indicator \<Rightarrow> int \<Rightarrow> Indicator" where
  "specSMA ind window =
     (\<lambda>i. if i < window - 1 then 0
          else sumFrom ind (i - window + 1) i / real_of_int window)"

function specEMAfrom :: "Indicator \<Rightarrow> int \<Rightarrow> int \<Rightarrow> real" where
  "specEMAfrom ind window i =
     (if i < window - 1 then 0
      else if i = window - 1 then specSMA ind window i
      else (2 / real_of_int (window + 1)) * ind i
           + (1 - 2 / real_of_int (window + 1)) * specEMAfrom ind window (i - 1))"
  by pat_completeness auto
termination
  by (relation "measure (\<lambda>(ind, window, i). nat (i + 1 - window))") auto

definition specEMA :: "Indicator \<Rightarrow> int \<Rightarrow> Indicator" where
  "specEMA ind window = (\<lambda>i. specEMAfrom ind window i)"

definition gain :: "Indicator \<Rightarrow> Indicator" where
  "gain ind = (\<lambda>i. max (ind i - ind (i - 1)) 0)"

definition loss :: "Indicator \<Rightarrow> Indicator" where
  "loss ind = (\<lambda>i. max (ind (i - 1) - ind i) 0)"

definition specRSI :: "Indicator \<Rightarrow> int \<Rightarrow> Indicator" where
  "specRSI ind window =
     (\<lambda>i. if i < window then 0
          else (let avgGain = sumFrom (gain ind) (i - window + 1) i / real_of_int window;
                    avgLoss = sumFrom (loss ind) (i - window + 1) i / real_of_int window
                in if avgLoss = 0 then 100
                   else 100 - 100 / (1 + avgGain / avgLoss)))"

definition specTechan :: techan where
  "specTechan = \<lparr> NewEMAIndicator = specEMA,
                  NewRelativeStrengthIndexIndicator = specRSI \<rparr>"

section \<open>The signal generator (analyze.go)\<close>

text \<open>
  \<^verbatim>\<open>analyzeClassic\<close> reads seven indicator values at the last index of the series it
  is given. \<open>classicReadings\<close> is that list of values, in the order the source computes
  them: emaShortNow, emaLongNow, emaShortPrev, emaLongPrev, rsiVal, macdVal,
  macdSignalVal.
\<close>

definition classicReadings :: "techan \<Rightarrow> TimeSeries \<Rightarrow> real list" where
  "classicReadings L ts =
     (let closePrices = NewClosePriceIndicator ts;
          emaShort = NewEMAIndicator L closePrices 9;
          emaLong = NewEMAIndicator L closePrices 21;
          rsi = NewRelativeStrengthIndexIndicator L closePrices 14;
          macd = NewMACDIndicator L closePrices 12 26;
          macdSignal = NewMACDHistogramIndicator L macd 9;
          lastIdx = LastIndex ts
      in [emaShort lastIdx, emaLong lastIdx, emaShort (lastIdx - 1), emaLong (lastIdx - 1),
          rsi lastIdx, macd lastIdx, macdSignal lastIdx])"

definition analyzeClassic :: "techan \<Rightarrow> string \<Rightarrow> TimeSeries \<Rightarrow> string" where
  "analyzeClassic L symbol ts =
     (let closePrices = NewClosePriceIndicator ts;
          emaShort = NewEMAIndicator L closePrices 9;
          emaLong = NewEMAIndicator L closePrices 21;
          rsi = NewRelativeStrengthIndexIndicator L closePrices 14;
          macd = NewMACDIndicator L closePrices 12 26;
          macdSignal = NewMACDHistogramIndicator L macd 9;
          lastIdx = LastIndex ts
      in if lastIdx < 26 then ''WAIT''
         else
           (let emaShortNow = emaShort lastIdx;
                emaLongNow = emaLong lastIdx;
                emaShortPrev = emaShort (lastIdx - 1);
                emaLongPrev = emaLong (lastIdx - 1);
                rsiVal = rsi lastIdx;
                macdVal = macd lastIdx;
                macdSignalVal = macdSignal lastIdx
            in if emaShortNow > emaLongNow \<and> emaShortPrev \<le> emaLongPrev
                  \<and> rsiVal < 70 \<and> macdVal > macdSignalVal then ''BUY''
               else if emaShortNow < emaLongNow \<and> emaShortPrev \<ge> emaLongPrev
                  \<and> rsiVal > 30 \<and> macdVal < macdSignalVal then ''SELL''
               else ''HOLD''))"

definition analyzeML :: "string \<Rightarrow> TimeSeries \<Rightarrow> string" where
  "analyzeML symbol ts = ''HOLD''"

text \<open>The global flag \<^verbatim>\<open>UseMLAnalyze\<close> is an explicit argument.\<close>

definition analyze :: "techan \<Rightarrow> bool \<Rightarrow> string \<Rightarrow> TimeSeries \<Rightarrow> string" where
  "analyze L UseMLAnalyze symbol ts =
     (if UseMLAnalyze then analyzeML symbol ts else analyzeClassic L symbol ts)"

section \<open>The backtest engine (backtest.go)\<close>

text \<open>
  Field names follow the source; where two structs share a field name the later record
  carries a prefix (\<open>TradeSymbol\<close>, \<open>ResultSymbol\<close>). Kline times are Unix milliseconds.
  Go's maps \<^verbatim>\<open>map[string]float64\<close> are association lists with distinct keys; a lookup
  of a missing key yields 0, as in Go.
\<close>

record BacktestConfig =
  Symbol :: string
  InitialBalance :: real
  TransactionFee :: real
  StartDate :: int
  EndDate :: int
  Interval :: string
  DataLimit :: int

record Trade =
  TradeSymbol :: string
  Type :: string
  Price :: real
  Quantity :: real
  Timestamp :: int
  Fee :: real
  Balance :: real
  TotalValue :: real

record Portfolio =
  Cash :: real
  Holdings :: "(string \<times> real) list"
  LastPrices :: "(string \<times> real) list"

record BacktestEngine =
  config :: BacktestConfig
  portfolio :: Portfolio
  trades :: "Trade list"
  startTime :: int
  endTime :: int

definition lookup0 :: "(string \<times> real) list \<Rightarrow> string \<Rightarrow> real" where
  "lookup0 m k = (case map_of m k of None \<Rightarrow> 0 | Some v \<Rightarrow> v)"

definition NewBacktestEngine :: "BacktestConfig \<Rightarrow> BacktestEngine" where
  "NewBacktestEngine cfg =
     \<lparr> config = cfg,
       portfolio = \<lparr> Cash = InitialBalance cfg, Holdings = [], LastPrices = [] \<rparr>,
       trades = [], startTime = 0, endTime = 0 \<rparr>"

definition GetPortfolioValue :: "BacktestEngine \<Rightarrow> real" where
  "GetPortfolioValue be =
     fold (\<lambda>(symbol, quantity) totalValue.
             case map_of (LastPrices (portfolio be)) symbol of
               Some price \<Rightarrow> totalValue + quantity * price
             | None \<Rightarrow> totalValue)
          (Holdings (portfolio be)) (Cash (portfolio be))"

text \<open>
  \<^verbatim>\<open>ExecuteTrade\<close> returns the source's boolean and the engine after the call. The one
  unguarded division is \<^verbatim>\<open>availableCash / costPerUnit\<close>: with \<^verbatim>\<open>costPerUnit = 0\<close> the
  float quotient is -Inf for negative cash (the order is then refused by
  \<^verbatim>\<open>maxQuantity <= 0\<close>) and +Inf or NaN otherwise, which passes the test and enters the
  portfolio: that outcome is \<open>Inl NonFinite\<close>.
\<close>

definition ExecuteTrade ::
  "BacktestEngine \<Rightarrow> string \<Rightarrow> string \<Rightarrow> real \<Rightarrow> int \<Rightarrow> error + bool \<times> BacktestEngine" where
  "ExecuteTrade be symbol tradeType price timestamp =
     (let fee = price * TransactionFee (config be) in
      if tradeType = ''BUY'' then
        (let availableCash = Cash (portfolio be);
             costPerUnit = price + fee
         in if costPerUnit = 0 then
              (if availableCash < 0 then Inr (False, be) else Inl NonFinite)
            else
              (let maxQuantity = availableCash / costPerUnit
               in if maxQuantity \<le> 0 then Inr (False, be)
                  else
                    (let totalCost = maxQuantity * price;
                         totalFee = maxQuantity * fee;
                         p = portfolio be;
                         p' = p \<lparr> Cash := Cash p - (totalCost + totalFee),
                                  Holdings := AList.update symbol
                                     (lookup0 (Holdings p) symbol + maxQuantity) (Holdings p),
                                  LastPrices := AList.update symbol price (LastPrices p) \<rparr>;
                         be' = be \<lparr> portfolio := p' \<rparr>;
                         trade = \<lparr> TradeSymbol = symbol, Type = tradeType, Price = price,
                                   Quantity = maxQuantity, Timestamp = timestamp,
                                   Fee = totalFee, Balance = Cash p',
                                   TotalValue = GetPortfolioValue be' \<rparr>
                     in Inr (True, be' \<lparr> trades := trades be' @ [trade] \<rparr>))))
      else if tradeType = ''SELL'' then
        (case map_of (Holdings (portfolio be)) symbol of
           None \<Rightarrow> Inr (False, be)
         | Some quantity \<Rightarrow>
             if quantity \<le> 0 then Inr (False, be)
             else
               (let totalRevenue = quantity * price;
                    totalFee = quantity * fee;
                    netRevenue = totalRevenue - totalFee;
                    p = portfolio be;
                    p' = p \<lparr> Cash := Cash p + netRevenue,
                             Holdings := AList.delete symbol (Holdings p),
                             LastPrices := AList.update symbol price (LastPrices p) \<rparr>;
                    be' = be \<lparr> portfolio := p' \<rparr>;
                    trade = \<lparr> TradeSymbol = symbol, Type = tradeType, Price = price,
                              Quantity = quantity, Timestamp = timestamp,
                              Fee = totalFee, Balance = Cash p',
                              TotalValue = GetPortfolioValue be' \<rparr>
                in Inr (True, be' \<lparr> trades := trades be' @ [trade] \<rparr>)))
      else Inr (False, be))"

subsection \<open>Statistics helpers\<close>

definition calculateMean :: "real list \<Rightarrow> real" where
  "calculateMean values =
     (if length values = 0 then 0
      else foldl (\<lambda>sum v. sum + v) 0 values / real (length values))"

definition calculateStdDev :: "real list \<Rightarrow> real \<Rightarrow> real" where
  "calculateStdDev values mean =
     (if length values \<le> 1 then 0
      else sqrt (foldl (\<lambda>sumSquares v. sumSquares + (v - mean) * (v - mean)) 0 values
                 / real (length values - 1)))"

text \<open>The block "Calculate Sharpe ratio" of \<^verbatim>\<open>RunBacktest\<close>, over the recorded returns.\<close>

definition sharpeRatio :: "real list \<Rightarrow> real" where
  "sharpeRatio dailyReturns =
     (if length dailyReturns > 1 then
        (let mean = calculateMean dailyReturns;
             stdDev = calculateStdDev dailyReturns mean
         in if stdDev > 0 then (mean * sqrt 252) / (stdDev * sqrt 252) else 0)
      else 0)"

text \<open>
  The Sharpe ratio in the words of the specification (section 4.6):
  mean(returns)/stdDev(returns) * sqrt(252), sample standard deviation, 0 when stdDev is
  0 or fewer than 2 returns exist.
\<close>

definition sampleStdDev :: "real list \<Rightarrow> real" where
  "sampleStdDev xs =
     sqrt ((\<Sum>x\<leftarrow>xs. (x - sum_list xs / real (length xs))\<^sup>2) / real (length xs - 1))"

definition sharpeSpec :: "real list \<Rightarrow> real" where
  "sharpeSpec xs =
     (if length xs < 2 \<or> sampleStdDev xs = 0 then 0
      else (sum_list xs / real (length xs)) / sampleStdDev xs * sqrt 252)"


subsection \<open>The simulation loop and the result\<close>

text \<open>
  A kline as \<^verbatim>\<open>RunBacktest\<close> uses it: the open and close time and the four prices after
  \<^verbatim>\<open>strconv.ParseFloat\<close> (whose errors the source drops, reading 0). The klines arrive in
  increasing time order, so techan's \<^verbatim>\<open>AddCandle\<close> appends each candle.
\<close>

record Kline =
  OpenTime :: int
  Open :: real
  High :: real
  Low :: real
  Close :: real
  CloseTime :: int

definition candleOf :: "Kline \<Rightarrow> Candle" where
  "candleOf k = \<lparr> PeriodStart = OpenTime k, OpenPrice = Open k, MaxPrice = High k,
                  MinPrice = Low k, ClosePrice = Close k, Volume = 0 \<rparr>"

record Simulation =
  engine :: BacktestEngine
  equityCurve :: "real list"
  dailyReturns :: "real list"
  maxValue :: real
  maxDrawdown :: real

text \<open>
  The sub-series of step \<open>i\<close>: the source copies the candles \<open>0..i\<close> into a fresh series.
\<close>

definition subSeries :: "TimeSeries \<Rightarrow> nat \<Rightarrow> TimeSeries" where
  "subSeries ts i = take (i + 1) ts"

definition signalAt :: "techan \<Rightarrow> bool \<Rightarrow> string \<Rightarrow> Kline list \<Rightarrow> nat \<Rightarrow> string" where
  "signalAt L UseMLAnalyze symbol klines i =
     analyze L UseMLAnalyze symbol (subSeries (map candleOf klines) i)"

text \<open>The first half of the loop body: mark the price, get the signal, trade on it.\<close>

definition tradeOnSignal ::
  "BacktestEngine \<Rightarrow> string \<Rightarrow> real \<Rightarrow> int \<Rightarrow> error + bool \<times> BacktestEngine" where
  "tradeOnSignal be signal currentPrice timestamp =
     (if signal = ''BUY'' then
        ExecuteTrade be (Symbol (config be)) ''BUY'' currentPrice timestamp
      else if signal = ''SELL'' then
        ExecuteTrade be (Symbol (config be)) ''SELL'' currentPrice timestamp
      else Inr (False, be))"

definition markPrice :: "BacktestEngine \<Rightarrow> real \<Rightarrow> BacktestEngine" where
  "markPrice be currentPrice =
     be \<lparr> portfolio := (portfolio be)
            \<lparr> LastPrices := AList.update (Symbol (config be)) currentPrice
                               (LastPrices (portfolio be)) \<rparr> \<rparr>"

text \<open>The second half: equity curve, step return, running peak and drawdown.\<close>

definition track :: "Simulation \<Rightarrow> BacktestEngine \<Rightarrow> Simulation" where
  "track st be =
     (let currentValue = GetPortfolioValue be;
          equityCurve' = equityCurve st @ [currentValue];
          dailyReturns' =
            (if length equityCurve' > 1 then
               (let prevValue = equityCurve' ! (length equityCurve' - 2)
                in if prevValue > 0
                   then dailyReturns st @ [(currentValue - prevValue) / prevValue]
                   else dailyReturns st)
             else dailyReturns st);
          maxValue' = (if currentValue > maxValue st then currentValue else maxValue st);
          drawdown = maxValue' - currentValue;
          maxDrawdown' = (if drawdown > maxDrawdown st then drawdown else maxDrawdown st)
      in \<lparr> engine = be, equityCurve = equityCurve', dailyReturns = dailyReturns',
           maxValue = maxValue', maxDrawdown = maxDrawdown' \<rparr>)"

definition backtestStep ::
  "techan \<Rightarrow> bool \<Rightarrow> Kline list \<Rightarrow> nat \<Rightarrow> Simulation \<Rightarrow> error + Simulation" where
  "backtestStep L UseMLAnalyze klines i st =
     (let currentPrice = Close (klines ! i);
          be = markPrice (engine st) currentPrice;
          signal = signalAt L UseMLAnalyze (Symbol (config be)) klines i;
          timestamp = OpenTime (klines ! i)
      in case tradeOnSignal be signal currentPrice timestamp of
           Inl e \<Rightarrow> Inl e
         | Inr (ok, be') \<Rightarrow> Inr (track st be'))"

text \<open>
  The loop \<^verbatim>\<open>for i := 26; i < len(klines); i++\<close>, with the start index and the bound as
  arguments: \<open>simulate L u klines i n st\<close> runs the steps \<open>i, ..., n - 1\<close> from \<open>st\<close>.
\<close>

function simulate ::
  "techan \<Rightarrow> bool \<Rightarrow> Kline list \<Rightarrow> nat \<Rightarrow> nat \<Rightarrow> Simulation \<Rightarrow> error + Simulation" where
  "simulate L UseMLAnalyze klines i n st =
     (if i < n then
        (case backtestStep L UseMLAnalyze klines i st of
           Inl e \<Rightarrow> Inl e
         | Inr st' \<Rightarrow> simulate L UseMLAnalyze klines (i + 1) n st')
      else Inr st)"
  by pat_completeness auto
termination
  by (relation "measure (\<lambda>(L, u, klines, i, n, st). n - i)") auto

definition startSimulation :: "BacktestEngine \<Rightarrow> Simulation" where
  "startSimulation be =
     \<lparr> engine = be, equityCurve = [], dailyReturns = [],
       maxValue = InitialBalance (config be), maxDrawdown = 0 \<rparr>"

text \<open>
  Pairing each SELL with the most recent unmatched BUY. The state is the stack of open
  buys, the two counters and the two sums.
\<close>

definition pairTrade ::
  "Trade list \<times> int \<times> int \<times> real \<times> real \<Rightarrow> Trade \<Rightarrow> Trade list \<times> int \<times> int \<times> real \<times> real" where
  "pairTrade acc trade =
     (case acc of (buyTrades, winningTrades, losingTrades, totalWins, totalLosses) \<Rightarrow>
        if Type trade = ''BUY'' then
          (buyTrades @ [trade], winningTrades, losingTrades, totalWins, totalLosses)
        else if Type trade = ''SELL'' \<and> length buyTrades > 0 then
          (let buyTrade = last buyTrades;
               pnl = (Price trade - Price buyTrade) * Quantity trade
                     - Fee trade - Fee buyTrade
           in if pnl > 0
              then (butlast buyTrades, winningTrades + 1, losingTrades,
                    totalWins + pnl, totalLosses)
              else (butlast buyTrades, winningTrades, losingTrades + 1,
                    totalWins, totalLosses + \<bar>pnl\<bar>))
        else acc)"

text \<open>
  A division the source performs without a guard: \<open>None\<close> stands for the non-finite
  float that a zero divisor yields.
\<close>

definition fdiv :: "real \<Rightarrow> real \<Rightarrow> real option" where
  "fdiv a b = (if b = 0 then None else Some (a / b))"

record BacktestResult =
  ResultSymbol :: string
  ResultInitialBalance :: real
  FinalBalance :: real
  FinalValue :: real
  TotalReturn :: real
  TotalReturnPct :: "real option"
  MaxDrawdown :: real
  MaxDrawdownPct :: "real option"
  WinRate :: real
  TotalTrades :: int
  WinningTrades :: int
  LosingTrades :: int
  AverageWin :: real
  AverageLoss :: real
  SharpeRatio :: real
  Trades :: "Trade list"
  DailyReturns :: "real list"
  EquityCurve :: "real list"
  Duration :: int
  BuyAndHoldReturn :: "real option"
  BuyAndHoldReturnPct :: "real option"

definition summarize :: "Kline list \<Rightarrow> Simulation \<Rightarrow> BacktestResult" where
  "summarize klines st =
     (let be = engine st;
          prices = map Close klines;
          finalValue = GetPortfolioValue be;
          totalReturn = finalValue - InitialBalance (config be);
          firstPrice = prices ! 0;
          lastPrice = prices ! (length prices - 1);
          stats = foldl pairTrade ([], 0, 0, 0, 0) (trades be)
      in case stats of (buyTrades, winningTrades, losingTrades, totalWins, totalLosses) \<Rightarrow>
         (let totalCompletedTrades = winningTrades + losingTrades
          in \<lparr> ResultSymbol = Symbol (config be),
               ResultInitialBalance = InitialBalance (config be),
               FinalBalance = Cash (portfolio be),
               FinalValue = finalValue,
               TotalReturn = totalReturn,
               TotalReturnPct =
                 map_option (\<lambda>x. x * 100) (fdiv totalReturn (InitialBalance (config be))),
               MaxDrawdown = maxDrawdown st,
               MaxDrawdownPct = map_option (\<lambda>x. x * 100) (fdiv (maxDrawdown st) (maxValue st)),
               WinRate = (if totalCompletedTrades > 0
                          then real_of_int winningTrades / real_of_int totalCompletedTrades * 100
                          else 0),
               TotalTrades = int (length (trades be)),
               WinningTrades = winningTrades,
               LosingTrades = losingTrades,
               AverageWin = (if winningTrades > 0
                             then totalWins / real_of_int winningTrades else 0),
               AverageLoss = (if losingTrades > 0
                              then totalLosses / real_of_int losingTrades else 0),
               SharpeRatio = sharpeRatio (dailyReturns st),
               Trades = trades be,
               DailyReturns = dailyReturns st,
               EquityCurve = equityCurve st,
               Duration = endTime be - startTime be,
               BuyAndHoldReturn =
                 map_option (\<lambda>x. x * InitialBalance (config be))
                   (fdiv (lastPrice - firstPrice) firstPrice),
               BuyAndHoldReturnPct =
                 map_option (\<lambda>x. x * 100) (fdiv (lastPrice - firstPrice) firstPrice) \<rparr>))"

text \<open>
  \<^verbatim>\<open>RunBacktest\<close> on the klines that \<^verbatim>\<open>fetchKlines\<close> returned (the retrieval itself is
  outside the model).
\<close>

definition RunBacktest ::
  "techan \<Rightarrow> bool \<Rightarrow> BacktestEngine \<Rightarrow> Kline list \<Rightarrow> error + BacktestResult" where
  "RunBacktest L UseMLAnalyze be klines =
     (if length klines = 0 then Inl NoHistoricalData
      else
        (let be' = be \<lparr> startTime := OpenTime (klines ! 0),
                        endTime := CloseTime (klines ! (length klines - 1)) \<rparr>
         in case simulate L UseMLAnalyze klines 26 (length klines) (startSimulation be') of
              Inl e \<Rightarrow> Inl e
            | Inr st \<Rightarrow> Inr (summarize klines st)))"


section \<open>The trainable predictor (ml_strategy.go)\<close>

record MLConfig =
  LookbackPeriod :: int
  TrainingRatio :: real
  MinTrainingPeriod :: int
  RetrainingPeriod :: int
  FeatureWindow :: int

record TradingFeatures =
  PriceChange1 :: real
  PriceChange5 :: real
  PriceChange10 :: real
  RSI :: real
  EMA9 :: real
  EMA21 :: real
  EMASpread :: real
  MACD :: real
  MACDSignal :: real
  MACDHistogram :: real
  VolumeRatio :: real
  VolumeMA :: real
  ATR :: real
  BollingerWidth :: real
  BollingerPosition :: real
  HighLowRatio :: real
  CandleBody :: real
  CandleWick :: real
  HourOfDay :: real
  DayOfWeek :: real
  FutureReturn :: real
  FutureDirection :: int

record FeatureStats =
  Mean :: real
  StdDev :: real
  StatsMin :: real
  StatsMax :: real

record ModelPerformance =
  Accuracy :: real
  Precision :: real
  Recall :: real
  F1Score :: real
  ProfitabilityScore :: real
  PerfSharpeRatio :: real
  TrainingLoss :: real
  ValidationLoss :: real

record PredictionResult =
  Direction :: string
  Confidence :: real
  ExpectedReturn :: real
  Features :: TradingFeatures

record MLModel =
  mlConfig :: MLConfig
  features :: "TradingFeatures list"
  trainedWeights :: "(string \<times> real) list"
  featureStats :: "(string \<times> FeatureStats) list"
  lastTraining :: int
  trainingCount :: int
  performance :: ModelPerformance
  l2Lambda :: real

text \<open>Go's zero values of the structs.\<close>

definition zeroFeatures :: TradingFeatures where
  "zeroFeatures =
     \<lparr> PriceChange1 = 0, PriceChange5 = 0, PriceChange10 = 0, RSI = 0, EMA9 = 0,
       EMA21 = 0, EMASpread = 0, MACD = 0, MACDSignal = 0, MACDHistogram = 0,
       VolumeRatio = 0, VolumeMA = 0, ATR = 0, BollingerWidth = 0,
       BollingerPosition = 0, HighLowRatio = 0, CandleBody = 0, CandleWick = 0,
       HourOfDay = 0, DayOfWeek = 0, FutureReturn = 0, FutureDirection = 0 \<rparr>"

definition zeroStats :: FeatureStats where
  "zeroStats = \<lparr> Mean = 0, StdDev = 0, StatsMin = 0, StatsMax = 0 \<rparr>"

definition zeroPerformance :: ModelPerformance where
  "zeroPerformance =
     \<lparr> Accuracy = 0, Precision = 0, Recall = 0, F1Score = 0, ProfitabilityScore = 0,
       PerfSharpeRatio = 0, TrainingLoss = 0, ValidationLoss = 0 \<rparr>"

definition NewMLModel :: "MLConfig \<Rightarrow> MLModel" where
  "NewMLModel cfg =
     \<lparr> mlConfig = cfg, features = [], trainedWeights = [], featureStats = [],
       lastTraining = 0, trainingCount = 0, performance = zeroPerformance,
       l2Lambda = 1 / 10000 \<rparr>"

subsection \<open>Windowed helpers\<close>

definition calculateSMA :: "Indicator \<Rightarrow> int \<Rightarrow> int \<Rightarrow> real" where
  "calculateSMA indicator index period =
     (if index < period - 1 then 0
      else sumFrom indicator (index - period + 1) index / real_of_int period)"

definition MLModel_calculateStdDev :: "Indicator \<Rightarrow> int \<Rightarrow> int \<Rightarrow> real" where
  "MLModel_calculateStdDev indicator index period =
     (if index < period - 1 then 0
      else
        (let mean = calculateSMA indicator index period;
             sumSquares = sumFrom (\<lambda>i. (indicator i - mean) * (indicator i - mean))
                            (index - period + 1) index;
             variance = sumSquares / real_of_int period
         in if variance < 0 then 0 else sqrt variance))"

definition calculateATR :: "TimeSeries \<Rightarrow> int \<Rightarrow> int \<Rightarrow> real" where
  "calculateATR ts index period =
     (if index < period then 0
      else
        (let closePrices = NewClosePriceIndicator ts;
             highPrices = NewHighPriceIndicator ts;
             lowPrices = NewLowPriceIndicator ts;
             trSum = sumFrom
               (\<lambda>i. let high = highPrices i; low = lowPrices i;
                         prevClose = closePrices (i - 1);
                         tr1 = high - low;
                         tr2 = \<bar>high - prevClose\<bar>;
                         tr3 = \<bar>low - prevClose\<bar>
                     in max tr1 (max tr2 tr3))
               (index - period + 1) index
         in trSum / real_of_int period))"

subsection \<open>Feature extraction\<close>

definition sanitize :: "real \<Rightarrow> real" where
  "sanitize v = (if IsNaN v \<or> IsInf v 0 then 0 else v)"

definition sanitizeFeatures :: "TradingFeatures \<Rightarrow> TradingFeatures" where
  "sanitizeFeatures f =
     f \<lparr> PriceChange1 := sanitize (PriceChange1 f),
         PriceChange5 := sanitize (PriceChange5 f),
         PriceChange10 := sanitize (PriceChange10 f),
         RSI := sanitize (RSI f),
         EMA9 := sanitize (EMA9 f),
         EMA21 := sanitize (EMA21 f),
         EMASpread := sanitize (EMASpread f),
         MACD := sanitize (MACD f),
         MACDSignal := sanitize (MACDSignal f),
         MACDHistogram := sanitize (MACDHistogram f),
         VolumeRatio := sanitize (VolumeRatio f),
         VolumeMA := sanitize (VolumeMA f),
         ATR := sanitize (ATR f),
         BollingerWidth := sanitize (BollingerWidth f),
         BollingerPosition := sanitize (BollingerPosition f),
         HighLowRatio := sanitize (HighLowRatio f),
         CandleBody := sanitize (CandleBody f),
         CandleWick := sanitize (CandleWick f),
         HourOfDay := sanitize (HourOfDay f),
         DayOfWeek := sanitize (DayOfWeek f),
         FutureReturn := sanitize (FutureReturn f) \<rparr>"

text \<open>
  The wall clock. \<^verbatim>\<open>time.Now()\<close> is an input of the call: a time in Unix seconds, read
  in UTC. \<open>Hour\<close> is in 0..23 and \<open>Weekday\<close> in 0..6 with Sunday 0 (1 January 1970 was a
  Thursday).
\<close>

definition Hour :: "int \<Rightarrow> int" where
  "Hour t = (t div 3600) mod 24"

definition Weekday :: "int \<Rightarrow> int" where
  "Weekday t = (t div 86400 + 4) mod 7"

text \<open>
  The body of \<^verbatim>\<open>ExtractFeatures\<close> after its window test: the struct it fills, before
  \<^verbatim>\<open>sanitizeFeatures\<close>. Every division stands behind the source's own guard.
\<close>

definition extractedFeatures :: "techan \<Rightarrow> TimeSeries \<Rightarrow> int \<Rightarrow> int \<Rightarrow> TradingFeatures" where
  "extractedFeatures L ts index now =
     (let closePrices = NewClosePriceIndicator ts;
          highPrices = NewHighPriceIndicator ts;
          lowPrices = NewLowPriceIndicator ts;
          volumeIndicator = NewVolumeIndicator ts;
          currentPrice = closePrices index;
          priceChange = (\<lambda>k. if index \<ge> k then
                                (let prevPrice = closePrices (index - k)
                                 in if prevPrice \<noteq> 0
                                    then (currentPrice - prevPrice) / prevPrice else 0)
                              else 0);
          rsi = NewRelativeStrengthIndexIndicator L closePrices 14;
          ema9 = NewEMAIndicator L closePrices 9;
          ema21 = NewEMAIndicator L closePrices 21;
          macd = NewMACDIndicator L closePrices 12 26;
          macdSignal = NewEMAIndicator L macd 9;
          fEMA9 = ema9 index;
          fEMA21 = ema21 index;
          fMACD = macd index;
          fMACDSignal = macdSignal index;
          volMA = calculateSMA volumeIndicator index 20;
          currentVol = volumeIndicator index;
          atr = calculateATR ts index 14;
          sma = calculateSMA closePrices index 20;
          stdDev = MLModel_calculateStdDev closePrices index 20;
          upperBB = sma + (2 * stdDev);
          lowerBB = sma - (2 * stdDev);
          bandWidth = upperBB - lowerBB;
          highPrice = highPrices index;
          lowPrice = lowPrices index;
          openPrice = OpenPrice (ts ! nat index);
          upperWick = max (highPrice - currentPrice) (highPrice - openPrice);
          lowerWick = max (currentPrice - lowPrice) (openPrice - lowPrice)
      in \<lparr> PriceChange1 = priceChange 1,
           PriceChange5 = priceChange 5,
           PriceChange10 = priceChange 10,
           RSI = rsi index,
           EMA9 = fEMA9,
           EMA21 = fEMA21,
           EMASpread = (if fEMA21 \<noteq> 0 then (fEMA9 - fEMA21) / fEMA21 else 0),
           MACD = fMACD,
           MACDSignal = fMACDSignal,
           MACDHistogram = fMACD - fMACDSignal,
           VolumeRatio = (if volMA > 0 then currentVol / volMA else 1),
           VolumeMA = volMA,
           ATR = atr,
           BollingerWidth = (if sma \<noteq> 0 then bandWidth / sma else 0),
           BollingerPosition =
             (if bandWidth \<noteq> 0 then (currentPrice - lowerBB) / bandWidth else 0),
           HighLowRatio =
             (if currentPrice \<noteq> 0 then (highPrice - lowPrice) / currentPrice else 0),
           CandleBody =
             (if currentPrice \<noteq> 0 then \<bar>currentPrice - openPrice\<bar> / currentPrice else 0),
           CandleWick =
             (if currentPrice \<noteq> 0 then (upperWick + lowerWick) / currentPrice else 0),
           HourOfDay = real_of_int (Hour now) / 24,
           DayOfWeek = real_of_int (Weekday now) / 7,
           FutureReturn = 0,
           FutureDirection = 0 \<rparr>)"

text \<open>
  \<^verbatim>\<open>ExtractFeatures\<close> returns \<open>Inr None\<close> for the source's \<^verbatim>\<open>nil\<close>, and
  \<open>Inl IndexOutOfRange\<close> where \<^verbatim>\<open>Calculate(index)\<close> would read outside the series and
  panic. The wall clock reading \<open>now\<close> is an argument.
\<close>

definition ExtractFeatures ::
  "techan \<Rightarrow> MLModel \<Rightarrow> TimeSeries \<Rightarrow> int \<Rightarrow> int \<Rightarrow> error + TradingFeatures option" where
  "ExtractFeatures L ml ts index now =
     (if index < FeatureWindow (mlConfig ml) then Inr None
      else if index < 0 \<or> int (length ts) \<le> index then Inl IndexOutOfRange
      else Inr (Some (sanitizeFeatures (extractedFeatures L ts index now))))"

subsection \<open>Training buffer and normalisation\<close>

definition AddTrainingData :: "MLModel \<Rightarrow> TradingFeatures \<Rightarrow> MLModel" where
  "AddTrainingData ml f =
     (let fs = features ml @ [sanitizeFeatures f]
      in ml \<lparr> features := (if int (length fs) > LookbackPeriod (mlConfig ml)
                             then tl fs else fs) \<rparr>)"

definition normalize :: "MLModel \<Rightarrow> string \<Rightarrow> real \<Rightarrow> real" where
  "normalize ml featureName v =
     (case map_of (featureStats ml) featureName of
        None \<Rightarrow> 0
      | Some stats \<Rightarrow>
          if StdDev stats = 0 \<or> IsNaN v \<or> IsInf v 0 then 0
          else (let normalized = (v - Mean stats) / StdDev stats
                in if IsNaN normalized \<or> IsInf normalized 0 then 0 else normalized))"

definition featureNames :: "string list" where
  "featureNames =
     [''PriceChange1'', ''PriceChange5'', ''PriceChange10'', ''RSI'', ''EMASpread'',
      ''MACDHistogram'', ''ATR'', ''BollingerWidth'', ''BollingerPosition'', ''VolumeRatio'']"

definition getFeatureValues :: "MLModel \<Rightarrow> string \<Rightarrow> real list" where
  "getFeatureValues ml featureName =
     map (\<lambda>feature.
            if featureName = ''PriceChange1'' then PriceChange1 feature
            else if featureName = ''PriceChange5'' then PriceChange5 feature
            else if featureName = ''PriceChange10'' then PriceChange10 feature
            else if featureName = ''RSI'' then RSI feature
            else if featureName = ''EMASpread'' then EMASpread feature
            else if featureName = ''MACDHistogram'' then MACDHistogram feature
            else if featureName = ''ATR'' then ATR feature
            else if featureName = ''BollingerWidth'' then BollingerWidth feature
            else if featureName = ''BollingerPosition'' then BollingerPosition feature
            else if featureName = ''VolumeRatio'' then VolumeRatio feature
            else 0)
         (features ml)"

definition calculateStats :: "real list \<Rightarrow> FeatureStats" where
  "calculateStats values =
     (if length values = 0 then zeroStats
      else
        (let sum = foldl (\<lambda>sum v. sum + v) 0 values;
             mean = sum / real (length values);
             sumSquares = foldl (\<lambda>sumSquares v. sumSquares + (v - mean) * (v - mean)) 0 values;
             minVal = foldl (\<lambda>minVal v. if v < minVal then v else minVal) (values ! 0) values;
             maxVal = foldl (\<lambda>maxVal v. if v > maxVal then v else maxVal) (values ! 0) values;
             stdDev = sqrt (sumSquares / real (length values))
         in \<lparr> Mean = mean, StdDev = stdDev, StatsMin = minVal, StatsMax = maxVal \<rparr>))"

definition calculateFeatureStats :: "MLModel \<Rightarrow> MLModel" where
  "calculateFeatureStats ml =
     (if length (features ml) < 10 then ml
      else foldl (\<lambda>m name. m \<lparr> featureStats :=
                     AList.update name (calculateStats (getFeatureValues m name))
                       (featureStats m) \<rparr>)
                 ml featureNames)"

text \<open>
  \<^verbatim>\<open>NormalizeFeatures\<close> changes the feature struct it is given and may fill the model's
  statistics: it returns both.
\<close>

definition NormalizeFeatures :: "MLModel \<Rightarrow> TradingFeatures \<Rightarrow> TradingFeatures \<times> MLModel" where
  "NormalizeFeatures ml f =
     (let ml' = (if length (featureStats ml) = 0 then calculateFeatureStats ml else ml)
      in (f \<lparr> PriceChange1 := normalize ml' ''PriceChange1'' (PriceChange1 f),
              PriceChange5 := normalize ml' ''PriceChange5'' (PriceChange5 f),
              PriceChange10 := normalize ml' ''PriceChange10'' (PriceChange10 f),
              RSI := normalize ml' ''RSI'' (RSI f),
              EMASpread := normalize ml' ''EMASpread'' (EMASpread f),
              MACDHistogram := normalize ml' ''MACDHistogram'' (MACDHistogram f),
              ATR := normalize ml' ''ATR'' (ATR f),
              BollingerWidth := normalize ml' ''BollingerWidth'' (BollingerWidth f),
              BollingerPosition := normalize ml' ''BollingerPosition'' (BollingerPosition f),
              VolumeRatio := normalize ml' ''VolumeRatio'' (VolumeRatio f) \<rparr>,
          ml'))"

subsection \<open>Prediction\<close>

definition predictValue :: "MLModel \<Rightarrow> TradingFeatures \<Rightarrow> real" where
  "predictValue ml f =
     (let w = lookup0 (trainedWeights ml)
      in w ''bias''
         + w ''PriceChange1'' * PriceChange1 f
         + w ''PriceChange5'' * PriceChange5 f
         + w ''PriceChange10'' * PriceChange10 f
         + w ''RSI'' * RSI f
         + w ''EMASpread'' * EMASpread f
         + w ''MACDHistogram'' * MACDHistogram f
         + w ''ATR'' * ATR f
         + w ''BollingerPosition'' * BollingerPosition f
         + w ''VolumeRatio'' * VolumeRatio f)"

definition Predict :: "MLModel \<Rightarrow> TradingFeatures \<Rightarrow> PredictionResult \<times> MLModel" where
  "Predict ml f =
     (if length (trainedWeights ml) = 0 then
        (\<lparr> Direction = ''HOLD'', Confidence = 0, ExpectedReturn = 0,
           Features = zeroFeatures \<rparr>, ml)
      else
        (case NormalizeFeatures ml f of (normalizedFeatures, ml') \<Rightarrow>
           (let expectedReturn = predictValue ml' normalizedFeatures;
                threshold = 1 / 1000
            in if expectedReturn > threshold then
                 (\<lparr> Direction = ''BUY'',
                    Confidence = min (\<bar>expectedReturn\<bar> * 100) 1,
                    ExpectedReturn = expectedReturn, Features = f \<rparr>, ml')
               else if expectedReturn < - threshold then
                 (\<lparr> Direction = ''SELL'',
                    Confidence = min (\<bar>expectedReturn\<bar> * 100) 1,
                    ExpectedReturn = expectedReturn, Features = f \<rparr>, ml')
               else
                 (\<lparr> Direction = ''HOLD'', Confidence = 0,
                    ExpectedReturn = expectedReturn, Features = f \<rparr>, ml'))))"

text \<open>\<^verbatim>\<open>time.Since(ml.lastTraining)\<close> against a clock reading in seconds.\<close>

definition ShouldRetrain :: "MLModel \<Rightarrow> int \<Rightarrow> bool" where
  "ShouldRetrain ml now =
     (if length (trainedWeights ml) = 0 then
        int (length (features ml)) \<ge> MinTrainingPeriod (mlConfig ml)
      else
        (let timeSinceTraining = now - lastTraining ml;
             retrainingInterval = RetrainingPeriod (mlConfig ml) * 60
         in timeSinceTraining > retrainingInterval
            \<and> int (length (features ml)) \<ge> MinTrainingPeriod (mlConfig ml)))"

subsection \<open>Training\<close>

definition learningRate :: real where
  "learningRate = 1 / 10000"

text \<open>One sample of one epoch: the state is the model and the running \<open>totalError\<close>.\<close>

definition updateWeight :: "real \<Rightarrow> string \<Rightarrow> real \<Rightarrow> MLModel \<Rightarrow> MLModel" where
  "updateWeight err name v ml =
     (if IsNaN v \<or> IsInf v 0 then ml
      else ml \<lparr> trainedWeights :=
                  AList.update name (lookup0 (trainedWeights ml) name + learningRate * err * v)
                    (trainedWeights ml) \<rparr>)"

definition trainSample :: "MLModel \<times> real \<Rightarrow> TradingFeatures \<Rightarrow> MLModel \<times> real" where
  "trainSample acc data =
     (case acc of (ml, totalError) \<Rightarrow>
      case NormalizeFeatures ml data of (normalized, ml1) \<Rightarrow>
        (let prediction = predictValue ml1 normalized;
             err0 = FutureReturn data - prediction;
             err = (if err0 > 1 then 1 else if err0 < - 1 then - 1 else err0);
             ml2 = updateWeight err ''PriceChange1'' (PriceChange1 normalized) ml1;
             ml3 = updateWeight err ''PriceChange5'' (PriceChange5 normalized) ml2;
             ml4 = updateWeight err ''PriceChange10'' (PriceChange10 normalized) ml3;
             ml5 = updateWeight err ''RSI'' (RSI normalized) ml4;
             ml6 = updateWeight err ''EMASpread'' (EMASpread normalized) ml5;
             ml7 = updateWeight err ''MACDHistogram'' (MACDHistogram normalized) ml6;
             ml8 = updateWeight err ''ATR'' (ATR normalized) ml7;
             ml9 = updateWeight err ''BollingerPosition'' (BollingerPosition normalized) ml8;
             ml10 = updateWeight err ''VolumeRatio'' (VolumeRatio normalized) ml9;
             ml11 = ml10 \<lparr> trainedWeights :=
                      AList.update ''bias''
                        (lookup0 (trainedWeights ml10) ''bias'' + learningRate * err)
                        (trainedWeights ml10) \<rparr>
         in (ml11, totalError + err * err)))"

text \<open>
  The regularisation loop ranges over the weight map; each key is visited once, with the
  value it holds at that moment. The state is the model and the running \<open>reg\<close>.
\<close>

definition decayWeight :: "MLModel \<times> real \<Rightarrow> string \<Rightarrow> MLModel \<times> real" where
  "decayWeight acc name =
     (case acc of (ml, reg) \<Rightarrow>
        if name = ''bias'' then (ml, reg)
        else
          (let w = lookup0 (trainedWeights ml) name
           in if \<not> IsNaN w \<and> \<not> IsInf w 0 then
                (let decay = learningRate * l2Lambda ml * w
                 in if \<not> IsNaN decay \<and> \<not> IsInf decay 0
                    then (ml \<lparr> trainedWeights :=
                                 AList.update name (w - decay) (trainedWeights ml) \<rparr>,
                          reg + w * w)
                    else (ml, reg + w * w))
              else (ml, reg)))"

definition trainEpoch :: "MLModel \<Rightarrow> TradingFeatures list \<Rightarrow> MLModel" where
  "trainEpoch ml trainData =
     (case foldl trainSample (ml, 0) trainData of (ml1, totalError) \<Rightarrow>
      case foldl decayWeight (ml1, 0) (map fst (trainedWeights ml1)) of (ml2, reg) \<Rightarrow>
        (if length trainData > 0 then
           ml2 \<lparr> performance := (performance ml2)
                  \<lparr> TrainingLoss := totalError / real (length trainData)
                                      + l2Lambda ml2 * reg \<rparr> \<rparr>
         else ml2))"

text \<open>The epoch loop with its early exit; the first argument counts the epochs left.\<close>

fun trainEpochs :: "nat \<Rightarrow> MLModel \<Rightarrow> TradingFeatures list \<Rightarrow> MLModel" where
  "trainEpochs 0 ml trainData = ml"
| "trainEpochs (Suc k) ml trainData =
     (let ml' = trainEpoch ml trainData
      in if TrainingLoss (performance ml') < 1 / 10000 then ml'
         else trainEpochs k ml' trainData)"

definition initialWeights :: "(string \<times> real) list \<Rightarrow> (string \<times> real) list" where
  "initialWeights w =
     AList.update ''bias'' 0
      (AList.update ''BollingerPosition'' (1 / 10)
       (AList.update ''ATR'' (- (1 / 10))
        (AList.update ''MACDHistogram'' (15 / 100)
         (AList.update ''EMASpread'' (2 / 10)
          (AList.update ''RSI'' (5 / 100)
           (AList.update ''PriceChange10'' (1 / 10)
            (AList.update ''PriceChange5'' (15 / 100)
             (AList.update ''PriceChange1'' (1 / 10) w))))))))"

definition trainLinearModel :: "MLModel \<Rightarrow> TradingFeatures list \<Rightarrow> MLModel" where
  "trainLinearModel ml trainData =
     trainEpochs 100 (ml \<lparr> trainedWeights := initialWeights (trainedWeights ml) \<rparr>) trainData"

text \<open>
  One validation sample. The state is the model and the counters \<open>correct\<close>,
  \<open>totalError\<close>, \<open>truePositives\<close>, \<open>falsePositives\<close>, \<open>falseNegatives\<close>.
\<close>

definition direction :: "real \<Rightarrow> int" where
  "direction v = (if v > 1 / 1000 then 1 else if v < - (1 / 1000) then - 1 else 0)"

definition evaluateSample ::
  "MLModel \<times> int \<times> real \<times> int \<times> int \<times> int \<Rightarrow> TradingFeatures
   \<Rightarrow> MLModel \<times> int \<times> real \<times> int \<times> int \<times> int" where
  "evaluateSample acc data0 =
     (case acc of (ml, correct, totalError, truePositives, falsePositives, falseNegatives) \<Rightarrow>
      let data = sanitizeFeatures data0 in
      case NormalizeFeatures ml data of (normalized, ml') \<Rightarrow>
        (let prediction = predictValue ml' normalized;
             err = FutureReturn data - prediction;
             predictedDirection = direction prediction;
             actualDirection = direction (FutureReturn data)
         in (ml',
             (if predictedDirection = actualDirection then correct + 1 else correct),
             totalError + err * err,
             (if predictedDirection = 1 \<and> actualDirection = 1
              then truePositives + 1 else truePositives),
             (if predictedDirection = 1 \<and> actualDirection \<noteq> 1
              then falsePositives + 1 else falsePositives),
             (if predictedDirection \<noteq> 1 \<and> actualDirection = 1
              then falseNegatives + 1 else falseNegatives))))"

definition evaluateModel :: "MLModel \<Rightarrow> TradingFeatures list \<Rightarrow> MLModel" where
  "evaluateModel ml validationData =
     (if length validationData = 0 then ml
      else
        (case foldl evaluateSample (ml, 0, 0, 0, 0, 0) validationData of
           (ml1, correct, totalError, truePositives, falsePositives, falseNegatives) \<Rightarrow>
           (let n = real (length validationData);
                p1 = (performance ml1)
                       \<lparr> ValidationLoss := totalError / n,
                         Accuracy := real_of_int correct / n \<rparr>;
                p2 = (if truePositives + falsePositives > 0
                      then p1 \<lparr> Precision := real_of_int truePositives
                                    / real_of_int (truePositives + falsePositives) \<rparr>
                      else p1);
                p3 = (if truePositives + falseNegatives > 0
                      then p2 \<lparr> Recall := real_of_int truePositives
                                    / real_of_int (truePositives + falseNegatives) \<rparr>
                      else p2);
                p4 = (if Precision p3 + Recall p3 > 0
                      then p3 \<lparr> F1Score := 2 * (Precision p3 * Recall p3)
                                    / (Precision p3 + Recall p3) \<rparr>
                      else p3)
            in ml1 \<lparr> performance := p4 \<rparr>)))"

text \<open>Go's conversion \<^verbatim>\<open>int(x)\<close> of a float: truncation toward zero.\<close>

definition truncate :: "real \<Rightarrow> int" where
  "truncate x = (if x \<ge> 0 then \<lfloor>x\<rfloor> else \<lceil>x\<rceil>)"

text \<open>
  \<^verbatim>\<open>TrainModel\<close> returns the error (if any) and the model after the call; \<open>now\<close> is the
  clock reading stored as \<^verbatim>\<open>lastTraining\<close>. With an empty buffer and a minimum of zero
  the slice \<^verbatim>\<open>ml.features[:trainSize]\<close> has a negative bound and panics.
\<close>

definition TrainModel :: "MLModel \<Rightarrow> int \<Rightarrow> error option \<times> MLModel" where
  "TrainModel ml now =
     (if int (length (features ml)) < MinTrainingPeriod (mlConfig ml)
      then (Some InsufficientData, ml)
      else
        (let ml1 = calculateFeatureStats ml;
             n = int (length (features ml1));
             trainSize0 = truncate (real_of_int n * TrainingRatio (mlConfig ml1));
             trainSize =
               (if trainSize0 \<le> 0 \<or> trainSize0 \<ge> n then
                  (let t = truncate (real_of_int n * (8 / 10))
                   in if t \<le> 0 then n - 1 else t)
                else trainSize0)
         in if trainSize < 0 then (Some IndexOutOfRange, ml1)
            else
              (let trainData = take (nat trainSize) (features ml1);
                   validationData = drop (nat trainSize) (features ml1);
                   ml2 = ml1 \<lparr> trainedWeights := [] \<rparr>;
                   ml3 = trainLinearModel ml2 trainData;
                   ml4 = evaluateModel ml3 validationData
               in (None, ml4 \<lparr> lastTraining := now,
                                trainingCount := trainingCount ml4 + 1 \<rparr>))))"


section \<open>The rule-based strategy in the specification's words\<close>

text \<open>
  Section 4.4: at least 27 bars of history, else WAIT; BUY iff EMA9 crosses above EMA21
  (was \<open>\<le>\<close>, now \<open>>\<close>) and RSI < 70 and MACD > signal; SELL iff EMA9 crosses below EMA21
  (was \<open>\<ge>\<close>, now \<open><\<close>) and RSI > 30 and MACD < signal; else HOLD. The signal line is the
  9-period EMA of the MACD (section 4.1).
\<close>

definition ruleBasedSpec :: "techan \<Rightarrow> TimeSeries \<Rightarrow> string" where
  "ruleBasedSpec L ts =
     (if length ts < 27 then ''WAIT''
      else
        (let closePrices = NewClosePriceIndicator ts;
             ema9 = NewEMAIndicator L closePrices 9;
             ema21 = NewEMAIndicator L closePrices 21;
             rsi = NewRelativeStrengthIndexIndicator L closePrices 14;
             macd = NewMACDIndicator L closePrices 12 26;
             signalLine = NewEMAIndicator L macd 9;
             i = LastIndex ts
         in if ema9 (i - 1) \<le> ema21 (i - 1) \<and> ema9 i > ema21 i
               \<and> rsi i < 70 \<and> macd i > signalLine i then ''BUY''
            else if ema9 (i - 1) \<ge> ema21 (i - 1) \<and> ema9 i < ema21 i
               \<and> rsi i > 30 \<and> macd i < signalLine i then ''SELL''
            else ''HOLD''))"

section \<open>Concrete inputs\<close>

text \<open>
  A series of 27 klines at 15-minute distance: 25 closes at 1000, a dip to 990 and a rise
  to 1009. It is the shortest series on which the rule-based strategy answers at all.
\<close>

definition flatKline :: "int \<Rightarrow> real \<Rightarrow> Kline" where
  "flatKline t p = \<lparr> OpenTime = t, Open = p, High = p, Low = p, Close = p,
                     CloseTime = t + 899999 \<rparr>"

definition dipKlines :: "Kline list" where
  "dipKlines = map (\<lambda>i. flatKline (900000 * int i) 1000) [0..<25]
               @ [flatKline 22500000 990, flatKline 23400000 1009]"

definition dipSeries :: TimeSeries where
  "dipSeries = map candleOf dipKlines"

text \<open>Thirty bars of one price.\<close>

definition flatSeries :: TimeSeries where
  "flatSeries = map (\<lambda>i. candleOf (flatKline (900000 * int i) 1000)) [0..<30]"

definition demoConfig :: BacktestConfig where
  "demoConfig = \<lparr> Symbol = ''BTCUSDT'', InitialBalance = 10000, TransactionFee = 1 / 1000,
                   StartDate = 0, EndDate = 0, Interval = ''15m'', DataLimit = 500 \<rparr>"

text \<open>An engine that holds two units and no cash.\<close>

definition investedEngine :: BacktestEngine where
  "investedEngine =
     (NewBacktestEngine demoConfig)
       \<lparr> portfolio := \<lparr> Cash = 0, Holdings = [(''BTCUSDT'', 2)],
                        LastPrices = [(''BTCUSDT'', 1000)] \<rparr> \<rparr>"

text \<open>Three step returns of 0, 1 and 2 per cent.\<close>

definition steadyReturns :: "real list" where
  "steadyReturns = [0, 1 / 100, 2 / 100]"

definition demoMLConfig :: MLConfig where
  "demoMLConfig = \<lparr> LookbackPeriod = 500, TrainingRatio = 8 / 10, MinTrainingPeriod = 100,
                     RetrainingPeriod = 60, FeatureWindow = 20 \<rparr>"

text \<open>A predictor whose buffer holds 50 samples, below the minimum of 100.\<close>

definition shortBufferModel :: MLModel where
  "shortBufferModel = (NewMLModel demoMLConfig) \<lparr> features := replicate 50 zeroFeatures \<rparr>"

text \<open>A predictor with a bias weight of one per cent and no feature statistics.\<close>

definition biasModel :: MLModel where
  "biasModel = (NewMLModel demoMLConfig) \<lparr> trainedWeights := [(''bias'', 1 / 100)] \<rparr>"


section \<open>Trade execution\<close>

declare sumFrom.simps [simp del] specEMAfrom.simps [simp del] simulate.simps [simp del]






text \<open>
  Claim C8. A SELL order for a symbol with no entry in the holdings map, or with an entry
  that is zero or negative, is refused: \<^verbatim>\<open>ExecuteTrade\<close> returns false and the engine
  (cash, holdings, last prices and trade log) is the one it was called on.
\<close>

theorem sell_without_position_is_noop:
  assumes "map_of (Holdings (portfolio be)) symbol = None
           \<or> (\<exists>q. map_of (Holdings (portfolio be)) symbol = Some q \<and> q \<le> 0)"
  shows "ExecuteTrade be symbol ''SELL'' price timestamp = Inr (False, be)"
  using assms by (auto simp: ExecuteTrade_def)

theorem sell_without_position_witness:
  "map_of (Holdings (portfolio (NewBacktestEngine demoConfig))) ''BTCUSDT'' = None
   \<and> ExecuteTrade (NewBacktestEngine demoConfig) ''BTCUSDT'' ''SELL'' 1000 0
       = Inr (False, NewBacktestEngine demoConfig)"
proof -
  have h: "map_of (Holdings (portfolio (NewBacktestEngine demoConfig))) ''BTCUSDT'' = None"
    by (simp add: NewBacktestEngine_def)
  then have "map_of (Holdings (portfolio (NewBacktestEngine demoConfig))) ''BTCUSDT'' = None
    \<or> (\<exists>q. map_of (Holdings (portfolio (NewBacktestEngine demoConfig))) ''BTCUSDT'' = Some q
            \<and> q \<le> 0)"
    by simp
  from sell_without_position_is_noop [OF this] h show ?thesis
    by simp
qed




section \<open>The Sharpe ratio\<close>

lemma sqrt_ten_thousandth: "sqrt (1 / 10000) = 1 / 100"
proof -
  have "sqrt ((1 / 100)\<^sup>2) = 1 / 100"
    by simp
  moreover have "((1::real) / 100)\<^sup>2 = 1 / 10000"
    by (simp add: power2_eq_square)
  ultimately show ?thesis by simp
qed

lemma steady_mean: "calculateMean steadyReturns = 1 / 100"
  by (simp add: calculateMean_def steadyReturns_def)

lemma steady_stdDev: "calculateStdDev steadyReturns (1 / 100) = 1 / 100"
  by (simp add: calculateStdDev_def sqrt_ten_thousandth steadyReturns_def)

lemma steady_sampleStdDev: "sampleStdDev steadyReturns = 1 / 100"
  by (simp add: sampleStdDev_def power2_eq_square sqrt_ten_thousandth steadyReturns_def)

text \<open>The reported field is the block's value on the recorded returns.\<close>

lemma SharpeRatio_summarize:
  "SharpeRatio (summarize klines st) = sharpeRatio (dailyReturns st)"
  by (simp add: summarize_def Let_def split: prod.splits)

text \<open>
  The factor \<open>sqrt 252\<close> stands in the numerator and in the denominator, so the value is
  the plain quotient of mean and sample standard deviation.
\<close>

lemma sharpeRatio_unscaled:
  "sharpeRatio rs =
     (if length rs > 1 \<and> calculateStdDev rs (calculateMean rs) > 0
      then calculateMean rs / calculateStdDev rs (calculateMean rs) else 0)"
  by (simp add: sharpeRatio_def Let_def)

text \<open>The guards: fewer than two returns, or a standard deviation of 0, give 0.\<close>

lemma sharpeRatio_zero:
  "length rs < 2 \<or> calculateStdDev rs (calculateMean rs) = 0 \<Longrightarrow> sharpeRatio rs = 0"
  by (auto simp: sharpeRatio_def Let_def)

lemma foldl_add_zeros: "set rs \<subseteq> {0} \<Longrightarrow> foldl (\<lambda>s v. s + v) (0::real) rs = 0"
  by (induction rs) auto

lemma foldl_squares_zeros:
  "set rs \<subseteq> {0} \<Longrightarrow> foldl (\<lambda>s v. s + v * v) (0::real) rs = 0"
  by (induction rs) auto

lemma sharpeRatio_all_zero: "set rs \<subseteq> {0} \<Longrightarrow> sharpeRatio rs = 0"
  by (rule sharpeRatio_zero)
     (simp add: calculateMean_def calculateStdDev_def foldl_add_zeros foldl_squares_zeros)

text \<open>
  Claim C2, evaluated on the returns 0, 1 and 2 per cent (mean 0.01, sample standard
  deviation 0.01): the specification's formula gives \<open>sqrt 252\<close>, above 15; the block of
  \<^verbatim>\<open>RunBacktest\<close> gives 1.
\<close>

theorem sharpe_ratio_not_annualized:
  "sharpeRatio steadyReturns = 1 \<and> sharpeSpec steadyReturns = sqrt 252 \<and> 15 < sqrt 252"
proof (intro conjI)
  show "sharpeRatio steadyReturns = 1"
    by (simp add: sharpeRatio_def steady_mean steady_stdDev Let_def)
       (simp add: steadyReturns_def)
  show "sharpeSpec steadyReturns = sqrt 252"
    by (simp add: sharpeSpec_def steady_sampleStdDev) (simp add: steadyReturns_def)
  show "15 < sqrt 252"
    by (rule real_less_rsqrt) simp
qed

theorem sharpe_ratio_not_annualized_witness:
  "sharpeRatio steadyReturns \<noteq> sharpeSpec steadyReturns"
  using sharpe_ratio_not_annualized by simp

section \<open>The rule-based strategy\<close>

lemma analyzeClassic_wait: "length ts < 27 \<Longrightarrow> analyzeClassic L symbol ts = ''WAIT''"
  by (simp add: analyzeClassic_def LastIndex_def Let_def)

text \<open>
  The value the source names \<^verbatim>\<open>macdSignalVal\<close> is the histogram, MACD minus signal line.
  So the test \<^verbatim>\<open>macdVal.GT(macdSignalVal)\<close> holds exactly when the signal line is
  positive, whatever the library computes as EMA and RSI.
\<close>

lemma analyzeClassic_buy_iff:
  "analyzeClassic L symbol ts = ''BUY'' \<longleftrightarrow>
     27 \<le> length ts \<and>
     (let closePrices = NewClosePriceIndicator ts;
          i = LastIndex ts
      in NewEMAIndicator L closePrices 9 i > NewEMAIndicator L closePrices 21 i
         \<and> NewEMAIndicator L closePrices 9 (i - 1) \<le> NewEMAIndicator L closePrices 21 (i - 1)
         \<and> NewRelativeStrengthIndexIndicator L closePrices 14 i < 70
         \<and> 0 < NewEMAIndicator L (NewMACDIndicator L closePrices 12 26) 9 i)"
  by (auto simp: analyzeClassic_def LastIndex_def Let_def NewMACDHistogramIndicator_def)

lemma analyzeClassic_sell_iff:
  "analyzeClassic L symbol ts = ''SELL'' \<longleftrightarrow>
     27 \<le> length ts \<and>
     (let closePrices = NewClosePriceIndicator ts;
          i = LastIndex ts
      in NewEMAIndicator L closePrices 9 i < NewEMAIndicator L closePrices 21 i
         \<and> NewEMAIndicator L closePrices 9 (i - 1) \<ge> NewEMAIndicator L closePrices 21 (i - 1)
         \<and> NewRelativeStrengthIndexIndicator L closePrices 14 i > 30
         \<and> NewEMAIndicator L (NewMACDIndicator L closePrices 12 26) 9 i < 0)"
  by (auto simp: analyzeClassic_def LastIndex_def Let_def NewMACDHistogramIndicator_def)

text \<open>
  Claim C5, evaluated on the 27-bar series \<open>dipSeries\<close> with the reference indicators.
  At the last bar EMA9 has crossed above EMA21 and RSI is 1900/29 (about 65.5); the MACD
  is negative and its signal line is above 600, so the MACD is not above its signal line
  and the strategy of the specification answers HOLD. \<^verbatim>\<open>analyzeClassic\<close> compares the
  MACD with the histogram and answers BUY.
\<close>

theorem rule_based_compares_histogram:
  "analyzeClassic specTechan ''BTCUSDT'' dipSeries = ''BUY''
   \<and> ruleBasedSpec specTechan dipSeries = ''HOLD''"
  by code_simp

theorem rule_based_compares_histogram_witness:
  "analyzeClassic specTechan ''BTCUSDT'' dipSeries \<noteq> ruleBasedSpec specTechan dipSeries"
  using rule_based_compares_histogram by simp

section \<open>Training\<close>

text \<open>
  Claim C7. When the training buffer holds fewer samples than
  \<^verbatim>\<open>MinTrainingPeriod\<close>, \<^verbatim>\<open>TrainModel\<close> returns the insufficient-data error and the
  model after the call is the model before it: weights, feature statistics, training
  count, last-training time and performance metrics are untouched.
\<close>

theorem train_insufficient_data_atomic:
  assumes "int (length (features ml)) < MinTrainingPeriod (mlConfig ml)"
  shows "TrainModel ml now = (Some InsufficientData, ml)"
  using assms by (simp add: TrainModel_def)

theorem train_insufficient_data_witness:
  "length (features shortBufferModel) = 50
   \<and> MinTrainingPeriod (mlConfig shortBufferModel) = 100
   \<and> TrainModel shortBufferModel 1700000000 = (Some InsufficientData, shortBufferModel)"
proof -
  have n: "length (features shortBufferModel) = 50"
    and m: "MinTrainingPeriod (mlConfig shortBufferModel) = 100"
    by (simp_all add: shortBufferModel_def NewMLModel_def demoMLConfig_def)
  then have "int (length (features shortBufferModel))
             < MinTrainingPeriod (mlConfig shortBufferModel)"
    by simp
  from train_insufficient_data_atomic [OF this] n m show ?thesis
    by simp
qed

end
